theory Spec2Isabelle
  imports Main "HOL-Library.Word" "HOL-Library.Multiset"
begin

section \<open>A todo service over one document collection\<close>

text \<open>
  The program is \<^verbatim>\<open>src/main.go\<close>: six HTTP handlers, each a translation of one request
  into calls on one MongoDB collection. The handlers are embedded as functions from the
  request, the collection and what the storage layer does during the request to an
  outcome: the responses written, the database calls issued, how the handler ended and
  the collection afterwards.

  The repository's second file is an earlier copy of the same program. Its \<^verbatim>\<open>getTodos\<close>,
  \<^verbatim>\<open>getTodo\<close>, \<^verbatim>\<open>toggleTodoStatus\<close> and \<^verbatim>\<open>deleteTodo\<close> are the same line for line, and so is
  what \<^verbatim>\<open>createTodo\<close> does from the insert on; its \<^verbatim>\<open>createTodo\<close> and \<^verbatim>\<open>updateTodo\<close> bind the
  body into a \<^verbatim>\<open>todo\<close> and do not run the validator. The handlers below are those of
  \<^verbatim>\<open>src/main.go\<close>; the earlier \<^verbatim>\<open>createTodo\<close> is embedded beside them as
  \<open>createTodo_part000\<close>.
\<close>

subsection \<open>Data\<close>

text \<open>
  \<^verbatim>\<open>bson.ObjectID\<close> is \<^verbatim>\<open>[12]byte\<close>. A Go string that is measured by the validator is
  measured in runes, so the text of an item is a list of code points; path parameters and
  messages are byte strings.
\<close>

type_synonym ObjectID = "8 word list"

type_synonym rune = nat

type_synonym gostring = "rune list"

definition NilObjectID :: ObjectID where
  "NilObjectID = replicate 12 0"

record todo =
  ID :: ObjectID
  Item :: gostring
  Completed :: bool

record todoPayload =
  payload_Item :: gostring
  payload_Completed :: bool

subsection \<open>Identifiers from the path\<close>

text \<open>
  \<^verbatim>\<open>bson.ObjectIDFromHex\<close> of the driver: the string has 24 bytes and each is a hexadecimal
  digit of either case; two digits make one byte, the high nibble first.
\<close>

definition fromHexChar :: "char \<Rightarrow> 8 word option" where
  "fromHexChar c =
     (let n = (of_char c :: nat) in
      if 48 \<le> n \<and> n \<le> 57 then Some (of_nat (n - 48))
      else if 97 \<le> n \<and> n \<le> 102 then Some (of_nat (n - 97 + 10))
      else if 65 \<le> n \<and> n \<le> 70 then Some (of_nat (n - 65 + 10))
      else None)"

fun hex_Decode :: "string \<Rightarrow> 8 word list option" where
  "hex_Decode [] = Some []"
| "hex_Decode [c] = None"
| "hex_Decode (a # b # cs) =
     (case fromHexChar a of
        None \<Rightarrow> None
      | Some hi \<Rightarrow>
          (case fromHexChar b of
             None \<Rightarrow> None
           | Some lo \<Rightarrow>
               (case hex_Decode cs of
                  None \<Rightarrow> None
                | Some bs \<Rightarrow> Some ((hi * 16 + lo) # bs))))"

definition ObjectIDFromHex :: "string \<Rightarrow> ObjectID option" where
  "ObjectIDFromHex s = (if length s \<noteq> 24 then None else hex_Decode s)"

subsection \<open>Request bodies, binding and validation\<close>

text \<open>
  A request body as \<^verbatim>\<open>ShouldBindJSON\<close> sees it. \<open>Unbindable\<close>: the call returns an error
  (no body, text that is not JSON, a key of the payload with a value of the wrong JSON
  type). \<open>Object i c\<close>: the body decodes; \<open>i\<close> and \<open>c\<close> are the values of the keys
  \<^verbatim>\<open>item\<close> and \<^verbatim>\<open>completed\<close>, \<open>None\<close> for a key that is left out. A field whose key is left
  out keeps Go's zero value.
\<close>

datatype request_body = Unbindable | Object "gostring option" "bool option"

fun ShouldBindJSON :: "request_body \<Rightarrow> todoPayload option" where
  "ShouldBindJSON Unbindable = None"
| "ShouldBindJSON (Object i c) =
     Some \<lparr>payload_Item = (case i of None \<Rightarrow> [] | Some t \<Rightarrow> t),
           payload_Completed = (case c of None \<Rightarrow> False | Some b \<Rightarrow> b)\<rparr>"

text \<open>
  The tags of \<^verbatim>\<open>todoPayload\<close>: \<^verbatim>\<open>Item\<close> carries \<^verbatim>\<open>validate:"required,max=100,min=2"\<close>,
  \<^verbatim>\<open>Completed\<close> none. The validator runs the tags of a field in the order written and stops
  at the first that fails; \<^verbatim>\<open>max\<close> and \<^verbatim>\<open>min\<close> on a string count its runes.
\<close>

record FieldError =
  Field :: string
  ActualTag :: string
  Param :: string

datatype validation_error = ValidationErrors "FieldError list" | InvalidValidationError

definition validate_Item :: "gostring \<Rightarrow> FieldError list" where
  "validate_Item t =
     (if t = [] then [\<lparr>Field = ''Item'', ActualTag = ''required'', Param = ''''\<rparr>]
      else if \<not> length t \<le> 100 then [\<lparr>Field = ''Item'', ActualTag = ''max'', Param = ''100''\<rparr>]
      else if \<not> 2 \<le> length t then [\<lparr>Field = ''Item'', ActualTag = ''min'', Param = ''2''\<rparr>]
      else [])"

definition Validate_Struct :: "todoPayload \<Rightarrow> validation_error option" where
  "Validate_Struct p =
     (case validate_Item (payload_Item p) of
        [] \<Rightarrow> None
      | e # es \<Rightarrow> Some (ValidationErrors (e # es)))"

definition Sprintf_field :: "FieldError \<Rightarrow> string" where
  "Sprintf_field fe =
     ''Field validation for '' @ [CHR 0x27] @ Field fe @ [CHR 0x27] @ '' failed: ''
       @ [CHR 0x27] @ ActualTag fe @ [CHR 0x27] @ '' (condition: '' @ Param fe @ '')''
       @ [CHR 0x0A]"

fun parseValidationError_loop :: "FieldError list \<Rightarrow> string \<Rightarrow> string" where
  "parseValidationError_loop [] result = result"
| "parseValidationError_loop (fe # fes) result =
     parseValidationError_loop fes (result @ Sprintf_field fe)"

fun parseValidationError :: "validation_error \<Rightarrow> string" where
  "parseValidationError (ValidationErrors validationErrors) =
     parseValidationError_loop validationErrors []"
| "parseValidationError InvalidValidationError = ''An unknown validation error occurred.''"

subsection \<open>The collection and the driver's calls\<close>

text \<open>
  The collection is the list of its documents in the storage layer's scan order. Every
  document in it was written by these handlers, so each decodes into a \<^verbatim>\<open>todo\<close>. A call on
  the collection either reaches the storage layer and is answered, or the driver reports a
  storage-layer error: \<open>fault\<close> \<open>None\<close> is the first, \<open>Some m\<close> the second with \<open>m\<close> the text
  of the error. A call that fails leaves the collection as it was.
\<close>

type_synonym fault = "string option"

datatype mongo_error = ErrNoDocuments | StorageError string

fun Error :: "mongo_error \<Rightarrow> string" where
  "Error ErrNoDocuments = ''mongo: no documents in result''"
| "Error (StorageError m) = m"

datatype update = SetCompleted bool | SetItem gostring

fun apply_update :: "update \<Rightarrow> todo \<Rightarrow> todo" where
  "apply_update (SetCompleted b) d = d\<lparr>Completed := b\<rparr>"
| "apply_update (SetItem t) d = d\<lparr>Item := t\<rparr>"

fun lookup_id :: "ObjectID \<Rightarrow> todo list \<Rightarrow> todo option" where
  "lookup_id oid [] = None"
| "lookup_id oid (d # ds) = (if ID d = oid then Some d else lookup_id oid ds)"

fun update_id :: "ObjectID \<Rightarrow> update \<Rightarrow> todo list \<Rightarrow> todo list" where
  "update_id oid u [] = []"
| "update_id oid u (d # ds) =
     (if ID d = oid then apply_update u d # ds else d # update_id oid u ds)"

fun delete_id :: "ObjectID \<Rightarrow> todo list \<Rightarrow> todo list" where
  "delete_id oid [] = []"
| "delete_id oid (d # ds) = (if ID d = oid then ds else d # delete_id oid ds)"

record InsertOneResult =
  InsertedID :: ObjectID

record UpdateResult =
  MatchedCount :: nat
  ModifiedCount :: nat

text \<open>
  \<^verbatim>\<open>InsertOne\<close> returns a pointer and an error; the pointer is nil whenever the error is
  not. The \<^verbatim>\<open>_id\<close> of a \<^verbatim>\<open>todo\<close> is \<^verbatim>\<open>omitempty\<close>, so for the zero identifier the driver
  generates one (\<open>gen\<close>, chosen by the driver); the collection refuses a second document
  with an \<^verbatim>\<open>_id\<close> it already holds.
\<close>

definition InsertOne ::
  "fault \<Rightarrow> ObjectID \<Rightarrow> todo list \<Rightarrow> todo \<Rightarrow> (InsertOneResult option \<times> mongo_error option) \<times> todo list"
where
  "InsertOne f gen s d =
     (case f of
        Some m \<Rightarrow> ((None, Some (StorageError m)), s)
      | None \<Rightarrow>
          (let d' = (if ID d = NilObjectID then d\<lparr>ID := gen\<rparr> else d) in
           if ID d' \<in> set (map ID s)
           then ((None, Some (StorageError ''E11000 duplicate key error'')), s)
           else ((Some \<lparr>InsertedID = ID d'\<rparr>, None), s @ [d'])))"

definition Find :: "fault \<Rightarrow> todo list \<Rightarrow> mongo_error + todo list" where
  "Find f s = (case f of Some m \<Rightarrow> Inl (StorageError m) | None \<Rightarrow> Inr s)"

text \<open>\<^verbatim>\<open>FindOne(...).Decode(&t)\<close>: the error of the call, or the first document of that id.\<close>

definition FindOne :: "fault \<Rightarrow> todo list \<Rightarrow> ObjectID \<Rightarrow> mongo_error + todo" where
  "FindOne f s oid =
     (case f of
        Some m \<Rightarrow> Inl (StorageError m)
      | None \<Rightarrow> (case lookup_id oid s of None \<Rightarrow> Inl ErrNoDocuments | Some d \<Rightarrow> Inr d))"

text \<open>
  \<^verbatim>\<open>UpdateOne\<close> reports a filter that matches nothing in its result, not as an error:
  \<^verbatim>\<open>MatchedCount\<close> is 0 and the error is nil.
\<close>

definition UpdateOne ::
  "fault \<Rightarrow> todo list \<Rightarrow> ObjectID \<Rightarrow> update \<Rightarrow> (mongo_error + UpdateResult) \<times> todo list"
where
  "UpdateOne f s oid u =
     (case f of
        Some m \<Rightarrow> (Inl (StorageError m), s)
      | None \<Rightarrow>
          (case lookup_id oid s of
             None \<Rightarrow> (Inr \<lparr>MatchedCount = 0, ModifiedCount = 0\<rparr>, s)
           | Some d \<Rightarrow>
               (Inr \<lparr>MatchedCount = 1, ModifiedCount = (if apply_update u d = d then 0 else 1)\<rparr>,
                update_id oid u s)))"

text \<open>\<^verbatim>\<open>FindOneAndUpdate\<close> with \<^verbatim>\<open>SetReturnDocument(options.After)\<close>, decoded.\<close>

definition FindOneAndUpdate ::
  "fault \<Rightarrow> todo list \<Rightarrow> ObjectID \<Rightarrow> update \<Rightarrow> (mongo_error + todo) \<times> todo list"
where
  "FindOneAndUpdate f s oid u =
     (case f of
        Some m \<Rightarrow> (Inl (StorageError m), s)
      | None \<Rightarrow>
          (case lookup_id oid s of
             None \<Rightarrow> (Inl ErrNoDocuments, s)
           | Some d \<Rightarrow> (Inr (apply_update u d), update_id oid u s)))"

definition FindOneAndDelete ::
  "fault \<Rightarrow> todo list \<Rightarrow> ObjectID \<Rightarrow> (mongo_error + todo) \<times> todo list"
where
  "FindOneAndDelete f s oid =
     (case f of
        Some m \<Rightarrow> (Inl (StorageError m), s)
      | None \<Rightarrow>
          (case lookup_id oid s of
             None \<Rightarrow> (Inl ErrNoDocuments, s)
           | Some d \<Rightarrow> (Inr d, delete_id oid s)))"

subsection \<open>Responses and outcomes\<close>

text \<open>
  \<^verbatim>\<open>ginContext.JSON\<close> and \<^verbatim>\<open>ginContext.IndentedJSON\<close> each write one response: a status and
  a body, which is \<^verbatim>\<open>gin.H{"error": m}\<close>, one record or a slice of records. A handler ends by
  returning or by a panic.
\<close>

datatype body = H_error string | TodoJSON todo | TodosJSON "todo list"

record response =
  status :: nat
  content :: body

definition JSON :: "nat \<Rightarrow> body \<Rightarrow> response" where
  "JSON code b = \<lparr>status = code, content = b\<rparr>"

definition StatusOK :: nat where "StatusOK = 200"
definition StatusCreated :: nat where "StatusCreated = 201"
definition StatusBadRequest :: nat where "StatusBadRequest = 400"
definition StatusNotFound :: nat where "StatusNotFound = 404"
definition StatusInternalServerError :: nat where "StatusInternalServerError = 500"

datatype dbcall =
    CallInsertOne todo
  | CallFind
  | CallFindOne ObjectID
  | CallUpdateOne ObjectID update
  | CallFindOneAndUpdate ObjectID update
  | CallFindOneAndDelete ObjectID

datatype ending = Returned | Panicked string

record outcome =
  written :: "response list"
  calls :: "dbcall list"
  ending :: ending
  coll :: "todo list"

definition return_with :: "response list \<Rightarrow> dbcall list \<Rightarrow> todo list \<Rightarrow> outcome" where
  "return_with ws cs s = \<lparr>written = ws, calls = cs, ending = Returned, coll = s\<rparr>"

subsection \<open>The handlers\<close>

text \<open>
  \<^verbatim>\<open>createTodo\<close>. After a failed insert the handler writes the 500 and, having no
  \<^verbatim>\<open>return\<close> there, goes on to \<^verbatim>\<open>insertResult.InsertedID\<close>, which dereferences the nil
  pointer.
\<close>

definition createTodo :: "fault \<Rightarrow> ObjectID \<Rightarrow> request_body \<Rightarrow> todo list \<Rightarrow> outcome" where
  "createTodo f gen b s =
     (case ShouldBindJSON b of
        None \<Rightarrow> return_with [JSON StatusBadRequest (H_error ''invalid request body'')] [] s
      | Some payload \<Rightarrow>
          (case Validate_Struct payload of
             Some err \<Rightarrow>
               return_with [JSON StatusBadRequest (H_error (parseValidationError err))] [] s
           | None \<Rightarrow>
               (let todo = \<lparr>ID = NilObjectID, Item = payload_Item payload,
                            Completed = payload_Completed payload\<rparr>;
                    ((insertResult, err), s') = InsertOne f gen s todo;
                    ws = (case err of
                            Some e \<Rightarrow> [JSON StatusInternalServerError (H_error (Error e))]
                          | None \<Rightarrow> [])
                in case insertResult of
                     None \<Rightarrow>
                       \<lparr>written = ws, calls = [CallInsertOne todo],
                        ending = Panicked ''runtime error: invalid memory address or nil pointer dereference'',
                        coll = s'\<rparr>
                   | Some r \<Rightarrow>
                       return_with (ws @ [JSON StatusCreated (TodoJSON (todo\<lparr>ID := InsertedID r\<rparr>))])
                         [CallInsertOne todo] s')))"

text \<open>
  The \<^verbatim>\<open>createTodo\<close> of the earlier copy (the repository's second file, lines 26 to 47). It
  binds the body into a \<^verbatim>\<open>todo\<close>, so the body may carry an \<^verbatim>\<open>id\<close> as well; it runs no
  validator and refuses the empty item only. From the insert on it is the handler above.
  \<open>Unbindable_todo\<close>: \<^verbatim>\<open>ShouldBindJSON\<close> returns an error. \<open>TodoObject i t c\<close>: the body
  decodes, with the values of the keys \<^verbatim>\<open>id\<close>, \<^verbatim>\<open>item\<close> and \<^verbatim>\<open>completed\<close>, \<open>None\<close> for a key
  that is left out.
\<close>

datatype todo_body = Unbindable_todo | TodoObject "ObjectID option" "gostring option" "bool option"

fun ShouldBindJSON_todo :: "todo_body \<Rightarrow> todo option" where
  "ShouldBindJSON_todo Unbindable_todo = None"
| "ShouldBindJSON_todo (TodoObject i t c) =
     Some \<lparr>ID = (case i of None \<Rightarrow> NilObjectID | Some oid \<Rightarrow> oid),
           Item = (case t of None \<Rightarrow> [] | Some x \<Rightarrow> x),
           Completed = (case c of None \<Rightarrow> False | Some b \<Rightarrow> b)\<rparr>"

definition createTodo_part000 :: "fault \<Rightarrow> ObjectID \<Rightarrow> todo_body \<Rightarrow> todo list \<Rightarrow> outcome" where
  "createTodo_part000 f gen b s =
     (case ShouldBindJSON_todo b of
        None \<Rightarrow> return_with [JSON StatusBadRequest (H_error ''invalid request body'')] [] s
      | Some todo \<Rightarrow>
          (if Item todo = []
           then return_with [JSON StatusBadRequest (H_error ''item is required'')] [] s
           else
             (let ((insertResult, err), s') = InsertOne f gen s todo;
                  ws = (case err of
                          Some e \<Rightarrow> [JSON StatusInternalServerError (H_error (Error e))]
                        | None \<Rightarrow> [])
              in case insertResult of
                   None \<Rightarrow>
                     \<lparr>written = ws, calls = [CallInsertOne todo],
                      ending = Panicked ''runtime error: invalid memory address or nil pointer dereference'',
                      coll = s'\<rparr>
                 | Some r \<Rightarrow>
                     return_with (ws @ [JSON StatusCreated (TodoJSON (todo\<lparr>ID := InsertedID r\<rparr>))])
                       [CallInsertOne todo] s')))"

text \<open>\<^verbatim>\<open>getTodos\<close>: the loop over the cursor appends each document to \<^verbatim>\<open>todos\<close>.\<close>

fun getTodos_loop :: "todo list \<Rightarrow> todo list \<Rightarrow> todo list" where
  "getTodos_loop [] todos = todos"
| "getTodos_loop (d # cursor) todos = getTodos_loop cursor (todos @ [d])"

definition getTodos :: "fault \<Rightarrow> todo list \<Rightarrow> outcome" where
  "getTodos f s =
     (case Find f s of
        Inl err \<Rightarrow>
          return_with [JSON StatusInternalServerError (H_error (Error err))] [CallFind] s
      | Inr cursor \<Rightarrow>
          return_with [JSON StatusOK (TodosJSON (getTodos_loop cursor []))] [CallFind] s)"

definition getTodo :: "fault \<Rightarrow> string \<Rightarrow> todo list \<Rightarrow> outcome" where
  "getTodo f id' s =
     (case ObjectIDFromHex id' of
        None \<Rightarrow> return_with [JSON StatusBadRequest (H_error ''invalid id format'')] [] s
      | Some objectId \<Rightarrow>
          (case FindOne f s objectId of
             Inl err \<Rightarrow>
               (if err = ErrNoDocuments
                then return_with [JSON StatusNotFound (H_error (Error err))]
                       [CallFindOne objectId] s
                else return_with [JSON StatusInternalServerError (H_error (Error err))]
                       [CallFindOne objectId] s)
           | Inr todoLocal \<Rightarrow>
               return_with [JSON StatusOK (TodoJSON todoLocal)] [CallFindOne objectId] s))"

text \<open>
  \<^verbatim>\<open>toggleTodoStatus\<close> makes two calls, a read and then a write, with no transaction
  around them: \<open>between\<close> is what other requests do to the collection after the read and
  before the write (the identity when there are none). The result of \<^verbatim>\<open>UpdateOne\<close> is
  discarded; only its error is looked at.
\<close>

definition toggleTodoStatus ::
  "fault \<Rightarrow> (todo list \<Rightarrow> todo list) \<Rightarrow> fault \<Rightarrow> string \<Rightarrow> todo list \<Rightarrow> outcome"
where
  "toggleTodoStatus f1 between f2 id' s =
     (case ObjectIDFromHex id' of
        None \<Rightarrow> return_with [JSON StatusBadRequest (H_error ''invalid id format'')] [] s
      | Some objectId \<Rightarrow>
          (case FindOne f1 s objectId of
             Inl err \<Rightarrow>
               (if err = ErrNoDocuments
                then return_with [JSON StatusNotFound (H_error ''document not found'')]
                       [CallFindOne objectId] s
                else return_with [JSON StatusInternalServerError (H_error (Error err))]
                       [CallFindOne objectId] s)
           | Inr todo \<Rightarrow>
               (let update = SetCompleted (\<not> Completed todo);
                    (res, s') = UpdateOne f2 (between s) objectId update;
                    cs = [CallFindOne objectId, CallUpdateOne objectId update]
                in case res of
                     Inl err \<Rightarrow>
                       return_with [JSON StatusInternalServerError (H_error (Error err))] cs s'
                   | Inr _ \<Rightarrow>
                       return_with
                         [JSON StatusOK (TodoJSON (todo\<lparr>Completed := \<not> Completed todo\<rparr>))] cs s')))"

definition updateTodo :: "fault \<Rightarrow> string \<Rightarrow> request_body \<Rightarrow> todo list \<Rightarrow> outcome" where
  "updateTodo f id' b s =
     (case ObjectIDFromHex id' of
        None \<Rightarrow> return_with [JSON StatusBadRequest (H_error ''invalid id format'')] [] s
      | Some objectId \<Rightarrow>
          (case ShouldBindJSON b of
             None \<Rightarrow> return_with [JSON StatusBadRequest (H_error ''invalid request body'')] [] s
           | Some payload \<Rightarrow>
               (case Validate_Struct payload of
                  Some err \<Rightarrow>
                    return_with [JSON StatusBadRequest (H_error (parseValidationError err))] [] s
                | None \<Rightarrow>
                    (let update = SetItem (payload_Item payload);
                         (res, s') = FindOneAndUpdate f s objectId update;
                         cs = [CallFindOneAndUpdate objectId update]
                     in case res of
                          Inl err \<Rightarrow>
                            (if err = ErrNoDocuments
                             then return_with [JSON StatusNotFound (H_error ''todo not found'')] cs s'
                             else return_with
                                    [JSON StatusInternalServerError (H_error (Error err))] cs s')
                        | Inr updatedTodo \<Rightarrow>
                            return_with [JSON StatusOK (TodoJSON updatedTodo)] cs s'))))"

definition deleteTodo :: "fault \<Rightarrow> string \<Rightarrow> todo list \<Rightarrow> outcome" where
  "deleteTodo f id' s =
     (case ObjectIDFromHex id' of
        None \<Rightarrow> return_with [JSON StatusBadRequest (H_error ''invalid id format'')] [] s
      | Some objectId \<Rightarrow>
          (let (res, s') = FindOneAndDelete f s objectId;
               cs = [CallFindOneAndDelete objectId]
           in case res of
                Inl err \<Rightarrow>
                  (if err = ErrNoDocuments
                   then return_with [JSON StatusNotFound (H_error ''document not found'')] cs s'
                   else return_with [JSON StatusInternalServerError (H_error (Error err))] cs s')
              | Inr deletedTodo \<Rightarrow> return_with [JSON StatusOK (TodoJSON deletedTodo)] cs s'))"

subsection \<open>Two identifiers for concrete requests\<close>

definition sample_id :: ObjectID where
  "sample_id = [0x50, 0x7f, 0x1f, 0x77, 0xbc, 0xf8, 0x6c, 0xd7, 0x99, 0x43, 0x90, 0x11]"

definition other_id :: ObjectID where
  "other_id = [0x50, 0x7f, 0x1f, 0x77, 0xbc, 0xf8, 0x6c, 0xd7, 0x99, 0x43, 0x90, 0x12]"

subsection \<open>Sequences of create requests\<close>

text \<open>
  Create requests served one after the other, each on the collection the one before left;
  the records a handler reported as created (the body of a 201); and whether a create
  succeeded (its one response is the 201).
\<close>

fun run_creates ::
  "(fault \<times> ObjectID \<times> request_body) list \<Rightarrow> todo list \<Rightarrow> outcome list \<times> todo list"
where
  "run_creates [] s = ([], s)"
| "run_creates ((f, gen, b) # rs) s =
     (let out = createTodo f gen b s;
          (outs, s') = run_creates rs (coll out)
      in (out # outs, s'))"

definition created :: "outcome \<Rightarrow> todo list" where
  "created out =
     concat (map (\<lambda>r. case content r of
                         TodoJSON t \<Rightarrow> (if status r = StatusCreated then [t] else [])
                       | _ \<Rightarrow> [])
               (written out))"

definition succeeded :: "outcome \<Rightarrow> bool" where
  "succeeded out = (map status (written out) = [StatusCreated])"

section \<open>Properties\<close>

subsection \<open>Lookup, update and removal by identifier\<close>

lemma ID_apply_update: "ID (apply_update u d) = ID d"
  by (cases u) simp_all

lemma lookup_id_SomeD: "lookup_id oid s = Some d \<Longrightarrow> d \<in> set s \<and> ID d = oid"
  by (induction s) (auto split: if_splits)

lemma lookup_id_None_iff: "lookup_id oid s = None \<longleftrightarrow> (\<forall>d \<in> set s. ID d \<noteq> oid)"
  by (induction s) auto

lemma lookup_id_distinct:
  "distinct (map ID s) \<Longrightarrow> d \<in> set s \<Longrightarrow> lookup_id (ID d) s = Some d"
  by (induction s) (auto simp: image_iff)

lemma map_ID_update_id: "map ID (update_id oid u s) = map ID s"
  by (induction s) (simp_all add: ID_apply_update)

lemma lookup_id_update_id:
  "lookup_id oid' (update_id oid u s) =
     (if oid' = oid then map_option (apply_update u) (lookup_id oid s) else lookup_id oid' s)"
  by (induction s) (auto simp: ID_apply_update)

lemma update_id_absent: "lookup_id oid s = None \<Longrightarrow> update_id oid u s = s"
  by (induction s) (auto split: if_splits)

lemma delete_id_absent: "lookup_id oid s = None \<Longrightarrow> delete_id oid s = s"
  by (induction s) (auto split: if_splits)

lemma set_delete_id: "set (delete_id oid s) \<subseteq> set s"
  by (induction s) auto

lemma distinct_delete_id: "distinct (map ID s) \<Longrightarrow> distinct (map ID (delete_id oid s))"
  using set_delete_id by (induction s) (auto simp: image_iff)

lemma lookup_id_delete_id_same:
  "distinct (map ID s) \<Longrightarrow> lookup_id oid (delete_id oid s) = None"
  by (induction s) (auto simp: lookup_id_None_iff image_iff)

lemma lookup_id_delete_id_other:
  "oid' \<noteq> oid \<Longrightarrow> lookup_id oid' (delete_id oid s) = lookup_id oid' s"
  by (induction s) auto

lemma update_id_twice:
  "lookup_id oid s = Some d \<Longrightarrow>
   update_id oid (SetCompleted (Completed d)) (update_id oid (SetCompleted (\<not> Completed d)) s) = s"
  by (induction s) (auto split: if_splits)

lemma getTodos_loop_append: "getTodos_loop cursor todos = todos @ cursor"
  by (induction cursor arbitrary: todos) simp_all

lemma hex_Decode_None_iff:
  "hex_Decode s = None \<longleftrightarrow> odd (length s) \<or> (\<exists>c \<in> set s. fromHexChar c = None)"
  by (induction s rule: hex_Decode.induct) (auto split: option.splits)

lemma ObjectIDFromHex_None_iff:
  "ObjectIDFromHex s = None \<longleftrightarrow> length s \<noteq> 24 \<or> (\<exists>c \<in> set s. fromHexChar c = None)"
  by (auto simp: ObjectIDFromHex_def hex_Decode_None_iff)

lemma hex_Decode_length: "hex_Decode s = Some bs \<Longrightarrow> 2 * length bs = length s"
  by (induction s arbitrary: bs rule: hex_Decode.induct) (auto split: option.splits)

lemma ObjectIDFromHex_length: "ObjectIDFromHex s = Some oid \<Longrightarrow> length oid = 12"
  by (auto simp: ObjectIDFromHex_def dest: hex_Decode_length split: if_splits)

subsection \<open>Parsing and validation at concrete inputs\<close>

lemma ObjectIDFromHex_example:
  "ObjectIDFromHex ''507f1f77bcf86cd799439011'' =
     Some [0x50, 0x7f, 0x1f, 0x77, 0xbc, 0xf8, 0x6c, 0xd7, 0x99, 0x43, 0x90, 0x11]"
  by (simp add: ObjectIDFromHex_def fromHexChar_def)

lemma ObjectIDFromHex_bad_example: "ObjectIDFromHex ''42'' = None"
  by (simp add: ObjectIDFromHex_def)

lemma ObjectIDFromHex_sample: "ObjectIDFromHex ''507f1f77bcf86cd799439011'' = Some sample_id"
  by (simp add: ObjectIDFromHex_example sample_id_def)

lemma Validate_Struct_None_iff:
  "Validate_Struct p = None \<longleftrightarrow> 2 \<le> length (payload_Item p) \<and> length (payload_Item p) \<le> 100"
  by (auto simp: Validate_Struct_def validate_Item_def)

subsection \<open>A write that matches nothing\<close>

text \<open>
  Claim C1. A toggle (PATCH /todos/:id) on a well-formed identifier whose document is there
  at the read and gone when the update is applied should end in the not-found outcome, 404.
  The handler does otherwise: \<^verbatim>\<open>UpdateOne\<close> reports a filter that matches nothing with a nil
  error, the handler looks at the error only, and so it answers 200 with the flipped copy of
  the document it read, although no document was changed.
\<close>

theorem toggle_late_delete_is_200:
  assumes "ObjectIDFromHex id' = Some oid"
    and "lookup_id oid s = Some d"
    and "lookup_id oid (between s) = None"
  shows "toggleTodoStatus None between None id' s =
           \<lparr>written = [\<lparr>status = 200,
                        content = TodoJSON (d\<lparr>Completed := \<not> Completed d\<rparr>)\<rparr>],
            calls = [CallFindOne oid, CallUpdateOne oid (SetCompleted (\<not> Completed d))],
            ending = Returned, coll = between s\<rparr>"
  using assms
  by (simp add: toggleTodoStatus_def FindOne_def UpdateOne_def return_with_def JSON_def
      StatusOK_def)

text \<open>The request at which claim C1 fails: the document is deleted between read and write.\<close>

theorem toggle_late_delete_is_200_witness:
  "toggleTodoStatus None (delete_id sample_id) None ''507f1f77bcf86cd799439011''
     [\<lparr>ID = sample_id, Item = [104, 105], Completed = False\<rparr>] =
           \<lparr>written = [\<lparr>status = 200,
                        content = TodoJSON \<lparr>ID = sample_id, Item = [104, 105], Completed = True\<rparr>\<rparr>],
            calls = [CallFindOne sample_id, CallUpdateOne sample_id (SetCompleted True)],
            ending = Returned, coll = []\<rparr>"
proof -
  have present: "lookup_id sample_id [\<lparr>ID = sample_id, Item = [104, 105], Completed = False\<rparr>]
      = Some \<lparr>ID = sample_id, Item = [104, 105], Completed = False\<rparr>"
    by simp
  have gone: "lookup_id sample_id
      (delete_id sample_id [\<lparr>ID = sample_id, Item = [104, 105], Completed = False\<rparr>]) = None"
    by simp
  show ?thesis
    using toggle_late_delete_is_200 [of "''507f1f77bcf86cd799439011''" sample_id
        "[\<lparr>ID = sample_id, Item = [104, 105], Completed = False\<rparr>]"
        "\<lparr>ID = sample_id, Item = [104, 105], Completed = False\<rparr>" "delete_id sample_id"]
      ObjectIDFromHex_sample present gone
    by simp
qed

subsection \<open>A failed insert\<close>

text \<open>
  Claim C2. A create (POST /todos) whose insert fails with a storage-layer error should
  report one 500 and stop there, without crashing. The handler writes the 500 and, with no
  \<^verbatim>\<open>return\<close> after it, goes on to read \<^verbatim>\<open>insertResult.InsertedID\<close> through the nil result:
  it ends in a panic. Exactly one response, the 500, has been written, and the collection
  is unchanged.
\<close>

theorem createTodo_failed_insert_panics:
  assumes "2 \<le> length t" and "length t \<le> 100"
  shows "createTodo (Some m) gen (Object (Some t) c) s =
           \<lparr>written = [\<lparr>status = 500, content = H_error m\<rparr>],
            calls = [CallInsertOne \<lparr>ID = NilObjectID, Item = t,
                       Completed = (case c of None \<Rightarrow> False | Some b \<Rightarrow> b)\<rparr>],
            ending = Panicked ''runtime error: invalid memory address or nil pointer dereference'',
            coll = s\<rparr>"
proof -
  have valid: "Validate_Struct \<lparr>payload_Item = t, payload_Completed = x\<rparr> = None" for x
    using assms by (simp add: Validate_Struct_None_iff)
  show ?thesis
    by (simp add: createTodo_def valid InsertOne_def JSON_def StatusInternalServerError_def)
qed

text \<open>The request at which claim C2 fails: a valid payload while the server is unreachable.\<close>

theorem createTodo_failed_insert_panics_witness:
  "createTodo (Some ''server selection timeout'') sample_id (Object (Some [104, 105]) None) [] =
           \<lparr>written = [\<lparr>status = 500, content = H_error ''server selection timeout''\<rparr>],
            calls = [CallInsertOne \<lparr>ID = NilObjectID, Item = [104, 105], Completed = False\<rparr>],
            ending = Panicked ''runtime error: invalid memory address or nil pointer dereference'',
            coll = []\<rparr>"
proof -
  have len: "2 \<le> length [104, 105 :: nat]" "length [104, 105 :: nat] \<le> 100"
    by simp_all
  show ?thesis
    using createTodo_failed_insert_panics [OF len, of "''server selection timeout''" sample_id None "[]"]
    by simp
qed

subsection \<open>Identifiers that do not parse\<close>

text \<open>
  Claim C3. For GET, PATCH, PUT and DELETE on /todos/:id with an identifier that is not a
  valid hexadecimal ObjectID, the handler answers 400: it writes exactly that one response,
  so neither 404 nor 500, whatever the request body, the collection and the storage layer's
  state are, and it issues no database call.
\<close>

theorem invalid_identifier_is_400:
  assumes "ObjectIDFromHex id' = None"
  shows "getTodo f id' s =
           \<lparr>written = [\<lparr>status = 400, content = H_error ''invalid id format''\<rparr>],
            calls = [], ending = Returned, coll = s\<rparr>
       \<and> toggleTodoStatus f1 between f2 id' s =
           \<lparr>written = [\<lparr>status = 400, content = H_error ''invalid id format''\<rparr>],
            calls = [], ending = Returned, coll = s\<rparr>
       \<and> updateTodo f id' b s =
           \<lparr>written = [\<lparr>status = 400, content = H_error ''invalid id format''\<rparr>],
            calls = [], ending = Returned, coll = s\<rparr>
       \<and> deleteTodo f id' s =
           \<lparr>written = [\<lparr>status = 400, content = H_error ''invalid id format''\<rparr>],
            calls = [], ending = Returned, coll = s\<rparr>"
  using assms
  by (simp add: getTodo_def toggleTodoStatus_def updateTodo_def deleteTodo_def
      return_with_def JSON_def StatusBadRequest_def)

text \<open>Claim C3 at the identifier \<^verbatim>\<open>42\<close>.\<close>

theorem invalid_identifier_is_400_witness:
  "getTodo (Some ''down'') ''42'' [] =
           \<lparr>written = [\<lparr>status = 400, content = H_error ''invalid id format''\<rparr>],
            calls = [], ending = Returned, coll = []\<rparr>
       \<and> toggleTodoStatus None (\<lambda>s. s) None ''42'' [] =
           \<lparr>written = [\<lparr>status = 400, content = H_error ''invalid id format''\<rparr>],
            calls = [], ending = Returned, coll = []\<rparr>
       \<and> updateTodo None ''42'' Unbindable [] =
           \<lparr>written = [\<lparr>status = 400, content = H_error ''invalid id format''\<rparr>],
            calls = [], ending = Returned, coll = []\<rparr>
       \<and> deleteTodo None ''42'' [] =
           \<lparr>written = [\<lparr>status = 400, content = H_error ''invalid id format''\<rparr>],
            calls = [], ending = Returned, coll = []\<rparr>"
  using invalid_identifier_is_400 [OF ObjectIDFromHex_bad_example] by blast

subsection \<open>Identifiers that match no record\<close>

text \<open>
  Claim C4. For GET, PATCH, PUT with a valid payload and DELETE on /todos/:id with a
  well-formed identifier that no record of the collection has, the handler answers 404 and
  the collection is unchanged. The storage layer answers the lookup (a storage-layer error
  there is the 500 of another case).
\<close>

theorem absent_identifier_is_404:
  assumes "ObjectIDFromHex id' = Some oid"
    and "\<forall>d \<in> set s. ID d \<noteq> oid"
    and "2 \<le> length t" and "length t \<le> 100"
  shows "getTodo None id' s =
           \<lparr>written = [\<lparr>status = 404, content = H_error ''mongo: no documents in result''\<rparr>],
            calls = [CallFindOne oid], ending = Returned, coll = s\<rparr>
       \<and> toggleTodoStatus None between f2 id' s =
           \<lparr>written = [\<lparr>status = 404, content = H_error ''document not found''\<rparr>],
            calls = [CallFindOne oid], ending = Returned, coll = s\<rparr>
       \<and> updateTodo None id' (Object (Some t) c) s =
           \<lparr>written = [\<lparr>status = 404, content = H_error ''todo not found''\<rparr>],
            calls = [CallFindOneAndUpdate oid (SetItem t)], ending = Returned, coll = s\<rparr>
       \<and> deleteTodo None id' s =
           \<lparr>written = [\<lparr>status = 404, content = H_error ''document not found''\<rparr>],
            calls = [CallFindOneAndDelete oid], ending = Returned, coll = s\<rparr>"
proof -
  from assms(2) have absent: "lookup_id oid s = None"
    by (simp add: lookup_id_None_iff)
  have valid: "Validate_Struct \<lparr>payload_Item = t, payload_Completed = x\<rparr> = None" for x
    using assms(3,4) by (simp add: Validate_Struct_None_iff)
  have g: "getTodo None id' s =
           \<lparr>written = [\<lparr>status = 404, content = H_error ''mongo: no documents in result''\<rparr>],
            calls = [CallFindOne oid], ending = Returned, coll = s\<rparr>"
    using assms(1) absent
    by (simp add: getTodo_def FindOne_def return_with_def JSON_def StatusNotFound_def)
  have p: "toggleTodoStatus None between f2 id' s =
           \<lparr>written = [\<lparr>status = 404, content = H_error ''document not found''\<rparr>],
            calls = [CallFindOne oid], ending = Returned, coll = s\<rparr>"
    using assms(1) absent
    by (simp add: toggleTodoStatus_def FindOne_def return_with_def JSON_def StatusNotFound_def)
  have u: "updateTodo None id' (Object (Some t) c) s =
           \<lparr>written = [\<lparr>status = 404, content = H_error ''todo not found''\<rparr>],
            calls = [CallFindOneAndUpdate oid (SetItem t)], ending = Returned, coll = s\<rparr>"
    using assms(1) absent valid
    by (simp add: updateTodo_def FindOneAndUpdate_def return_with_def JSON_def
        StatusNotFound_def)
  have d: "deleteTodo None id' s =
           \<lparr>written = [\<lparr>status = 404, content = H_error ''document not found''\<rparr>],
            calls = [CallFindOneAndDelete oid], ending = Returned, coll = s\<rparr>"
    using assms(1) absent
    by (simp add: deleteTodo_def FindOneAndDelete_def return_with_def JSON_def
        StatusNotFound_def)
  from g p u d show ?thesis by simp
qed

text \<open>Claim C4 on a collection that holds one record, of another identifier.\<close>

theorem absent_identifier_is_404_witness:
  "getTodo None ''507f1f77bcf86cd799439011'' [\<lparr>ID = other_id, Item = [104, 105], Completed = True\<rparr>] =
           \<lparr>written = [\<lparr>status = 404, content = H_error ''mongo: no documents in result''\<rparr>],
            calls = [CallFindOne sample_id], ending = Returned,
            coll = [\<lparr>ID = other_id, Item = [104, 105], Completed = True\<rparr>]\<rparr>
       \<and> toggleTodoStatus None (\<lambda>s. s) None ''507f1f77bcf86cd799439011''
             [\<lparr>ID = other_id, Item = [104, 105], Completed = True\<rparr>] =
           \<lparr>written = [\<lparr>status = 404, content = H_error ''document not found''\<rparr>],
            calls = [CallFindOne sample_id], ending = Returned,
            coll = [\<lparr>ID = other_id, Item = [104, 105], Completed = True\<rparr>]\<rparr>
       \<and> updateTodo None ''507f1f77bcf86cd799439011'' (Object (Some [111, 107]) None)
             [\<lparr>ID = other_id, Item = [104, 105], Completed = True\<rparr>] =
           \<lparr>written = [\<lparr>status = 404, content = H_error ''todo not found''\<rparr>],
            calls = [CallFindOneAndUpdate sample_id (SetItem [111, 107])], ending = Returned,
            coll = [\<lparr>ID = other_id, Item = [104, 105], Completed = True\<rparr>]\<rparr>
       \<and> deleteTodo None ''507f1f77bcf86cd799439011''
             [\<lparr>ID = other_id, Item = [104, 105], Completed = True\<rparr>] =
           \<lparr>written = [\<lparr>status = 404, content = H_error ''document not found''\<rparr>],
            calls = [CallFindOneAndDelete sample_id], ending = Returned,
            coll = [\<lparr>ID = other_id, Item = [104, 105], Completed = True\<rparr>]\<rparr>"
proof -
  have absent: "\<forall>d \<in> set [\<lparr>ID = other_id, Item = [104, 105], Completed = True\<rparr>]. ID d \<noteq> sample_id"
    by (simp add: sample_id_def other_id_def)
  have len: "2 \<le> length [111, 107 :: nat]" "length [111, 107 :: nat] \<le> 100"
    by simp_all
  show ?thesis
    using absent_identifier_is_404 [OF ObjectIDFromHex_sample absent len,
        of "\<lambda>s. s" None None]
    by simp
qed

subsection \<open>The length of an item\<close>

lemma Validate_Struct_too_short:
  "length t = 1 \<Longrightarrow>
   Validate_Struct \<lparr>payload_Item = t, payload_Completed = x\<rparr> =
     Some (ValidationErrors [\<lparr>Field = ''Item'', ActualTag = ''min'', Param = ''2''\<rparr>])"
  by (auto simp: Validate_Struct_def validate_Item_def)

lemma Validate_Struct_too_long:
  "length t = 101 \<Longrightarrow>
   Validate_Struct \<lparr>payload_Item = t, payload_Completed = x\<rparr> =
     Some (ValidationErrors [\<lparr>Field = ''Item'', ActualTag = ''max'', Param = ''100''\<rparr>])"
  by (auto simp: Validate_Struct_def validate_Item_def)

lemma createTodo_valid:
  assumes "2 \<le> length t" and "length t \<le> 100" and "gen \<notin> ID ` set s"
  shows "createTodo None gen (Object (Some t) c) s =
           \<lparr>written = [\<lparr>status = 201,
                        content = TodoJSON \<lparr>ID = gen, Item = t,
                          Completed = (case c of None \<Rightarrow> False | Some b \<Rightarrow> b)\<rparr>\<rparr>],
            calls = [CallInsertOne \<lparr>ID = NilObjectID, Item = t,
                       Completed = (case c of None \<Rightarrow> False | Some b \<Rightarrow> b)\<rparr>],
            ending = Returned,
            coll = s @ [\<lparr>ID = gen, Item = t,
                     Completed = (case c of None \<Rightarrow> False | Some b \<Rightarrow> b)\<rparr>]\<rparr>"
proof -
  have valid: "Validate_Struct \<lparr>payload_Item = t, payload_Completed = x\<rparr> = None" for x
    using assms(1,2) by (simp add: Validate_Struct_None_iff)
  show ?thesis
    using assms(3)
    by (simp add: createTodo_def valid InsertOne_def return_with_def JSON_def
        StatusCreated_def)
qed

text \<open>The handler of \<^verbatim>\<open>src/main.go\<close> at the four lengths.\<close>

lemma createTodo_validated_lengths:
  "(length t = 1 \<longrightarrow>
      createTodo f gen (Object (Some t) c) s =
        \<lparr>written = [\<lparr>status = 400,
            content = H_error (''Field validation for '' @ [CHR 0x27] @ ''Item'' @ [CHR 0x27]
              @ '' failed: '' @ [CHR 0x27] @ ''min'' @ [CHR 0x27] @ '' (condition: 2)''
              @ [CHR 0x0A])\<rparr>],
         calls = [], ending = Returned, coll = s\<rparr>)
 \<and> (length t = 101 \<longrightarrow>
      createTodo f gen (Object (Some t) c) s =
        \<lparr>written = [\<lparr>status = 400,
            content = H_error (''Field validation for '' @ [CHR 0x27] @ ''Item'' @ [CHR 0x27]
              @ '' failed: '' @ [CHR 0x27] @ ''max'' @ [CHR 0x27] @ '' (condition: 100)''
              @ [CHR 0x0A])\<rparr>],
         calls = [], ending = Returned, coll = s\<rparr>)
 \<and> ((length t = 2 \<or> length t = 100) \<and> gen \<notin> ID ` set s \<longrightarrow>
      createTodo None gen (Object (Some t) c) s =
        \<lparr>written = [\<lparr>status = 201,
            content = TodoJSON \<lparr>ID = gen, Item = t,
              Completed = (case c of None \<Rightarrow> False | Some b \<Rightarrow> b)\<rparr>\<rparr>],
         calls = [CallInsertOne \<lparr>ID = NilObjectID, Item = t,
              Completed = (case c of None \<Rightarrow> False | Some b \<Rightarrow> b)\<rparr>],
         ending = Returned,
         coll = s @ [\<lparr>ID = gen, Item = t,
              Completed = (case c of None \<Rightarrow> False | Some b \<Rightarrow> b)\<rparr>]\<rparr>)"
proof (intro conjI impI)
  assume "length t = 1"
  then show "createTodo f gen (Object (Some t) c) s =
        \<lparr>written = [\<lparr>status = 400,
            content = H_error (''Field validation for '' @ [CHR 0x27] @ ''Item'' @ [CHR 0x27]
              @ '' failed: '' @ [CHR 0x27] @ ''min'' @ [CHR 0x27] @ '' (condition: 2)''
              @ [CHR 0x0A])\<rparr>],
         calls = [], ending = Returned, coll = s\<rparr>"
    by (simp add: createTodo_def Validate_Struct_too_short return_with_def JSON_def
        StatusBadRequest_def Sprintf_field_def)
next
  assume "length t = 101"
  then show "createTodo f gen (Object (Some t) c) s =
        \<lparr>written = [\<lparr>status = 400,
            content = H_error (''Field validation for '' @ [CHR 0x27] @ ''Item'' @ [CHR 0x27]
              @ '' failed: '' @ [CHR 0x27] @ ''max'' @ [CHR 0x27] @ '' (condition: 100)''
              @ [CHR 0x0A])\<rparr>],
         calls = [], ending = Returned, coll = s\<rparr>"
    by (simp add: createTodo_def Validate_Struct_too_long return_with_def JSON_def
        StatusBadRequest_def Sprintf_field_def)
next
  assume a: "(length t = 2 \<or> length t = 100) \<and> gen \<notin> ID ` set s"
  then have "2 \<le> length t" "length t \<le> 100" "gen \<notin> ID ` set s"
    by auto
  then show "createTodo None gen (Object (Some t) c) s =
        \<lparr>written = [\<lparr>status = 201,
            content = TodoJSON \<lparr>ID = gen, Item = t,
              Completed = (case c of None \<Rightarrow> False | Some b \<Rightarrow> b)\<rparr>\<rparr>],
         calls = [CallInsertOne \<lparr>ID = NilObjectID, Item = t,
              Completed = (case c of None \<Rightarrow> False | Some b \<Rightarrow> b)\<rparr>],
         ending = Returned,
         coll = s @ [\<lparr>ID = gen, Item = t,
              Completed = (case c of None \<Rightarrow> False | Some b \<Rightarrow> b)\<rparr>]\<rparr>"
    by (rule createTodo_valid)
qed

text \<open>The earlier handler: the empty item is refused, every other item is inserted.\<close>

lemma createTodo_part000_empty:
  "createTodo_part000 f gen (TodoObject i (Some []) c) s =
     \<lparr>written = [\<lparr>status = 400, content = H_error ''item is required''\<rparr>],
      calls = [], ending = Returned, coll = s\<rparr>"
  by (simp add: createTodo_part000_def return_with_def JSON_def StatusBadRequest_def)

lemma createTodo_part000_nonempty:
  assumes "t \<noteq> []" and "gen \<notin> ID ` set s"
  shows "createTodo_part000 None gen (TodoObject None (Some t) c) s =
           \<lparr>written = [\<lparr>status = 201,
                        content = TodoJSON \<lparr>ID = gen, Item = t,
                          Completed = (case c of None \<Rightarrow> False | Some b \<Rightarrow> b)\<rparr>\<rparr>],
            calls = [CallInsertOne \<lparr>ID = NilObjectID, Item = t,
                       Completed = (case c of None \<Rightarrow> False | Some b \<Rightarrow> b)\<rparr>],
            ending = Returned,
            coll = s @ [\<lparr>ID = gen, Item = t,
                     Completed = (case c of None \<Rightarrow> False | Some b \<Rightarrow> b)\<rparr>]\<rparr>"
  using assms
  by (simp add: createTodo_part000_def InsertOne_def return_with_def JSON_def
      StatusCreated_def Let_def)

lemma createTodo_part000_failed_insert:
  assumes "t \<noteq> []"
  shows "createTodo_part000 (Some m) gen (TodoObject None (Some t) c) s =
           \<lparr>written = [\<lparr>status = 500, content = H_error m\<rparr>],
            calls = [CallInsertOne \<lparr>ID = NilObjectID, Item = t,
                       Completed = (case c of None \<Rightarrow> False | Some b \<Rightarrow> b)\<rparr>],
            ending = Panicked ''runtime error: invalid memory address or nil pointer dereference'',
            coll = s\<rparr>"
  using assms
  by (simp add: createTodo_part000_def InsertOne_def JSON_def StatusInternalServerError_def
      Let_def)

text \<open>
  Claim C5, as stated: a create (POST /todos) with well-formed JSON whose \<^verbatim>\<open>item\<close> has
  length 1 or 101 is answered 400. The earlier \<^verbatim>\<open>createTodo\<close> does not do so: it inserts an
  item of one rune, and one of 101 runes, and answers 201.
\<close>

theorem createTodo_part000_accepts_short_and_long:
  "map status (written (createTodo_part000 None sample_id (TodoObject None (Some [97]) None) []))
     = [201]
 \<and> map status (written (createTodo_part000 None sample_id (TodoObject None (Some [97]) None) []))
     \<noteq> [400]
 \<and> map status (written
       (createTodo_part000 None sample_id (TodoObject None (Some (replicate 101 97)) None) []))
     = [201]
 \<and> map status (written
       (createTodo_part000 None sample_id (TodoObject None (Some (replicate 101 97)) None) []))
     \<noteq> [400]"
  by (simp add: createTodo_part000_def InsertOne_def return_with_def JSON_def
      StatusCreated_def Let_def)

text \<open>
  Claim C5, amended. The \<^verbatim>\<open>createTodo\<close> of \<^verbatim>\<open>src/main.go\<close> answers an \<^verbatim>\<open>item\<close> of length 1 or
  101 with 400 and a message that names the field and the rule that failed, and one of
  length 2 or 100 with 201, the insert succeeding (the storage layer answers and the
  generated identifier is new). The earlier \<^verbatim>\<open>createTodo\<close> refuses the empty item only, with
  400 and the message that the item is required, and answers every other item with 201,
  the insert succeeding: so lengths 2 and 100, and also 1 and 101. In both, \<^verbatim>\<open>completed\<close>
  may be left out and is then false.
\<close>

theorem createTodo_item_length_by_handler:
  "(length t = 1 \<longrightarrow>
      createTodo f gen (Object (Some t) c) s =
        \<lparr>written = [\<lparr>status = 400,
            content = H_error (''Field validation for '' @ [CHR 0x27] @ ''Item'' @ [CHR 0x27]
              @ '' failed: '' @ [CHR 0x27] @ ''min'' @ [CHR 0x27] @ '' (condition: 2)''
              @ [CHR 0x0A])\<rparr>],
         calls = [], ending = Returned, coll = s\<rparr>)
 \<and> (length t = 101 \<longrightarrow>
      createTodo f gen (Object (Some t) c) s =
        \<lparr>written = [\<lparr>status = 400,
            content = H_error (''Field validation for '' @ [CHR 0x27] @ ''Item'' @ [CHR 0x27]
              @ '' failed: '' @ [CHR 0x27] @ ''max'' @ [CHR 0x27] @ '' (condition: 100)''
              @ [CHR 0x0A])\<rparr>],
         calls = [], ending = Returned, coll = s\<rparr>)
 \<and> ((length t = 2 \<or> length t = 100) \<and> gen \<notin> ID ` set s \<longrightarrow>
      createTodo None gen (Object (Some t) c) s =
        \<lparr>written = [\<lparr>status = 201,
            content = TodoJSON \<lparr>ID = gen, Item = t,
              Completed = (case c of None \<Rightarrow> False | Some b \<Rightarrow> b)\<rparr>\<rparr>],
         calls = [CallInsertOne \<lparr>ID = NilObjectID, Item = t,
              Completed = (case c of None \<Rightarrow> False | Some b \<Rightarrow> b)\<rparr>],
         ending = Returned,
         coll = s @ [\<lparr>ID = gen, Item = t,
              Completed = (case c of None \<Rightarrow> False | Some b \<Rightarrow> b)\<rparr>]\<rparr>)
 \<and> createTodo_part000 f gen (TodoObject i (Some []) c) s =
        \<lparr>written = [\<lparr>status = 400, content = H_error ''item is required''\<rparr>],
         calls = [], ending = Returned, coll = s\<rparr>
 \<and> (t \<noteq> [] \<and> gen \<notin> ID ` set s \<longrightarrow>
      createTodo_part000 None gen (TodoObject None (Some t) c) s =
        \<lparr>written = [\<lparr>status = 201,
            content = TodoJSON \<lparr>ID = gen, Item = t,
              Completed = (case c of None \<Rightarrow> False | Some b \<Rightarrow> b)\<rparr>\<rparr>],
         calls = [CallInsertOne \<lparr>ID = NilObjectID, Item = t,
              Completed = (case c of None \<Rightarrow> False | Some b \<Rightarrow> b)\<rparr>],
         ending = Returned,
         coll = s @ [\<lparr>ID = gen, Item = t,
              Completed = (case c of None \<Rightarrow> False | Some b \<Rightarrow> b)\<rparr>]\<rparr>)"
  using createTodo_validated_lengths [of t f gen c s] createTodo_part000_empty [of f gen i c s]
    createTodo_part000_nonempty [of t gen s c]
  by blast

text \<open>Claim C5, amended, at items of 1, 101, 2 and 100 runes for each handler.\<close>

theorem createTodo_item_length_by_handler_witness:
  "createTodo None sample_id (Object (Some [97]) None) [] =
        \<lparr>written = [\<lparr>status = 400,
            content = H_error (''Field validation for '' @ [CHR 0x27] @ ''Item'' @ [CHR 0x27]
              @ '' failed: '' @ [CHR 0x27] @ ''min'' @ [CHR 0x27] @ '' (condition: 2)''
              @ [CHR 0x0A])\<rparr>],
         calls = [], ending = Returned, coll = []\<rparr>
 \<and> createTodo None sample_id (Object (Some (replicate 101 97)) None) [] =
        \<lparr>written = [\<lparr>status = 400,
            content = H_error (''Field validation for '' @ [CHR 0x27] @ ''Item'' @ [CHR 0x27]
              @ '' failed: '' @ [CHR 0x27] @ ''max'' @ [CHR 0x27] @ '' (condition: 100)''
              @ [CHR 0x0A])\<rparr>],
         calls = [], ending = Returned, coll = []\<rparr>
 \<and> createTodo None sample_id (Object (Some [97, 98]) None) [] =
        \<lparr>written = [\<lparr>status = 201,
            content = TodoJSON \<lparr>ID = sample_id, Item = [97, 98], Completed = False\<rparr>\<rparr>],
         calls = [CallInsertOne \<lparr>ID = NilObjectID, Item = [97, 98], Completed = False\<rparr>],
         ending = Returned,
         coll = [\<lparr>ID = sample_id, Item = [97, 98], Completed = False\<rparr>]\<rparr>
 \<and> createTodo None sample_id (Object (Some (replicate 100 97)) (Some True)) [] =
        \<lparr>written = [\<lparr>status = 201,
            content = TodoJSON \<lparr>ID = sample_id, Item = replicate 100 97, Completed = True\<rparr>\<rparr>],
         calls = [CallInsertOne \<lparr>ID = NilObjectID, Item = replicate 100 97, Completed = True\<rparr>],
         ending = Returned,
         coll = [\<lparr>ID = sample_id, Item = replicate 100 97, Completed = True\<rparr>]\<rparr>
 \<and> createTodo_part000 None sample_id (TodoObject None (Some [97]) None) [] =
        \<lparr>written = [\<lparr>status = 201,
            content = TodoJSON \<lparr>ID = sample_id, Item = [97], Completed = False\<rparr>\<rparr>],
         calls = [CallInsertOne \<lparr>ID = NilObjectID, Item = [97], Completed = False\<rparr>],
         ending = Returned,
         coll = [\<lparr>ID = sample_id, Item = [97], Completed = False\<rparr>]\<rparr>
 \<and> createTodo_part000 None sample_id (TodoObject None (Some (replicate 101 97)) None) [] =
        \<lparr>written = [\<lparr>status = 201,
            content = TodoJSON \<lparr>ID = sample_id, Item = replicate 101 97, Completed = False\<rparr>\<rparr>],
         calls = [CallInsertOne \<lparr>ID = NilObjectID, Item = replicate 101 97, Completed = False\<rparr>],
         ending = Returned,
         coll = [\<lparr>ID = sample_id, Item = replicate 101 97, Completed = False\<rparr>]\<rparr>
 \<and> createTodo_part000 None sample_id (TodoObject None (Some [97, 98]) None) [] =
        \<lparr>written = [\<lparr>status = 201,
            content = TodoJSON \<lparr>ID = sample_id, Item = [97, 98], Completed = False\<rparr>\<rparr>],
         calls = [CallInsertOne \<lparr>ID = NilObjectID, Item = [97, 98], Completed = False\<rparr>],
         ending = Returned,
         coll = [\<lparr>ID = sample_id, Item = [97, 98], Completed = False\<rparr>]\<rparr>
 \<and> createTodo_part000 None sample_id (TodoObject None (Some (replicate 100 97)) (Some True)) [] =
        \<lparr>written = [\<lparr>status = 201,
            content = TodoJSON \<lparr>ID = sample_id, Item = replicate 100 97, Completed = True\<rparr>\<rparr>],
         calls = [CallInsertOne \<lparr>ID = NilObjectID, Item = replicate 100 97, Completed = True\<rparr>],
         ending = Returned,
         coll = [\<lparr>ID = sample_id, Item = replicate 100 97, Completed = True\<rparr>]\<rparr>
 \<and> createTodo_part000 None sample_id (TodoObject None (Some []) None) [] =
        \<lparr>written = [\<lparr>status = 400, content = H_error ''item is required''\<rparr>],
         calls = [], ending = Returned, coll = []\<rparr>"
  using createTodo_item_length_by_handler [of "[97]" None sample_id None "[]" None]
    createTodo_item_length_by_handler [of "replicate 101 97" None sample_id None "[]" None]
    createTodo_item_length_by_handler [of "[97, 98]" None sample_id None "[]" None]
    createTodo_item_length_by_handler [of "replicate 100 97" None sample_id "Some True" "[]" None]
  by simp

subsection \<open>Replacing the text of an item\<close>

lemma update_id_SetItem_frame:
  "list_all2 (\<lambda>a b. ID b = ID a \<and> Completed b = Completed a \<and> (ID a \<noteq> oid \<longrightarrow> b = a))
     s (update_id oid (SetItem t) s)"
  by (induction s) (simp_all add: list_all2_refl)

lemma update_id_SetCompleted_frame:
  "list_all2 (\<lambda>a b. ID b = ID a \<and> Item b = Item a \<and> (ID a \<noteq> oid \<longrightarrow> b = a))
     s (update_id oid (SetCompleted v) s)"
  by (induction s) (simp_all add: list_all2_refl)

text \<open>
  Claim C6. An update (PUT /todos/:id) with a valid payload on an existing record changes
  that record's \<^verbatim>\<open>item\<close> only: its identifier and \<^verbatim>\<open>completed\<close> stay, every record keeps
  its identifier and \<^verbatim>\<open>completed\<close>, records of other identifiers are untouched, a
  \<^verbatim>\<open>completed\<close> in the payload makes no difference, and the response is the record as it is
  after the update.
\<close>

theorem updateTodo_changes_only_Item:
  assumes "ObjectIDFromHex id' = Some oid"
    and "lookup_id oid s = Some d"
    and "2 \<le> length t" and "length t \<le> 100"
  shows "written (updateTodo None id' (Object (Some t) c) s) =
           [\<lparr>status = 200,
             content = TodoJSON \<lparr>ID = ID d, Item = t, Completed = Completed d\<rparr>\<rparr>]
       \<and> ending (updateTodo None id' (Object (Some t) c) s) = Returned
       \<and> lookup_id oid (coll (updateTodo None id' (Object (Some t) c) s)) =
           Some \<lparr>ID = ID d, Item = t, Completed = Completed d\<rparr>
       \<and> list_all2 (\<lambda>a b. ID b = ID a \<and> Completed b = Completed a \<and> (ID a \<noteq> oid \<longrightarrow> b = a))
           s (coll (updateTodo None id' (Object (Some t) c) s))
       \<and> updateTodo None id' (Object (Some t) c) s = updateTodo None id' (Object (Some t) c') s"
proof -
  have valid: "Validate_Struct \<lparr>payload_Item = t, payload_Completed = x\<rparr> = None" for x
    using assms(3,4) by (simp add: Validate_Struct_None_iff)
  have out: "updateTodo None id' (Object (Some t) x) s =
      \<lparr>written = [\<lparr>status = 200,
                   content = TodoJSON \<lparr>ID = ID d, Item = t, Completed = Completed d\<rparr>\<rparr>],
       calls = [CallFindOneAndUpdate oid (SetItem t)], ending = Returned,
       coll = update_id oid (SetItem t) s\<rparr>" for x
    using assms(1,2)
    by (simp add: updateTodo_def valid FindOneAndUpdate_def return_with_def JSON_def
        StatusOK_def Let_def)
  have stored: "lookup_id oid (update_id oid (SetItem t) s) =
      Some \<lparr>ID = ID d, Item = t, Completed = Completed d\<rparr>"
    using assms(2) by (simp add: lookup_id_update_id)
  have frame: "list_all2 (\<lambda>a b. ID b = ID a \<and> Completed b = Completed a \<and> (ID a \<noteq> oid \<longrightarrow> b = a))
      s (update_id oid (SetItem t) s)"
    by (rule update_id_SetItem_frame)
  show ?thesis
    unfolding out using stored frame by simp
qed

text \<open>Claim C6 on a collection of two records.\<close>

theorem updateTodo_changes_only_Item_witness:
  "written (updateTodo None ''507f1f77bcf86cd799439011'' (Object (Some [111, 107]) (Some False))
      [\<lparr>ID = other_id, Item = [104, 105], Completed = False\<rparr>,
       \<lparr>ID = sample_id, Item = [97, 98], Completed = True\<rparr>]) =
     [\<lparr>status = 200,
       content = TodoJSON \<lparr>ID = sample_id, Item = [111, 107], Completed = True\<rparr>\<rparr>]
   \<and> lookup_id sample_id
        (coll (updateTodo None ''507f1f77bcf86cd799439011'' (Object (Some [111, 107]) (Some False))
          [\<lparr>ID = other_id, Item = [104, 105], Completed = False\<rparr>,
           \<lparr>ID = sample_id, Item = [97, 98], Completed = True\<rparr>])) =
     Some \<lparr>ID = sample_id, Item = [111, 107], Completed = True\<rparr>"
proof -
  let ?s = "[\<lparr>ID = other_id, Item = [104, 105], Completed = False\<rparr>,
             \<lparr>ID = sample_id, Item = [97, 98], Completed = True\<rparr>]"
  have present: "lookup_id sample_id ?s = Some \<lparr>ID = sample_id, Item = [97, 98], Completed = True\<rparr>"
    by (simp add: sample_id_def other_id_def)
  have len: "2 \<le> length [111, 107 :: nat]" "length [111, 107 :: nat] \<le> 100"
    by simp_all
  show ?thesis
    using updateTodo_changes_only_Item [of "''507f1f77bcf86cd799439011''" sample_id ?s
        "\<lparr>ID = sample_id, Item = [97, 98], Completed = True\<rparr>" "[111, 107]" "Some False"]
      ObjectIDFromHex_sample present len
    by simp
qed

subsection \<open>Toggling twice\<close>

lemma toggleTodoStatus_present:
  assumes "ObjectIDFromHex id' = Some oid"
    and "lookup_id oid s = Some d"
  shows "toggleTodoStatus None (\<lambda>s. s) None id' s =
      \<lparr>written = [\<lparr>status = 200,
          content = TodoJSON \<lparr>ID = ID d, Item = Item d, Completed = (\<not> Completed d)\<rparr>\<rparr>],
       calls = [CallFindOne oid, CallUpdateOne oid (SetCompleted (\<not> Completed d))],
       ending = Returned,
       coll = update_id oid (SetCompleted (\<not> Completed d)) s\<rparr>"
  using assms
  by (simp add: toggleTodoStatus_def FindOne_def UpdateOne_def return_with_def JSON_def
      StatusOK_def Let_def)

text \<open>
  Claim C7. For an existing record, one toggle (PATCH /todos/:id) flips \<^verbatim>\<open>completed\<close> in the
  collection and in the response and leaves \<^verbatim>\<open>item\<close> and the identifier as they were; a
  second toggle right after it, with nothing in between, answers with the original record
  and leaves the collection as it was before the first.
\<close>

theorem toggle_twice_restores:
  assumes "ObjectIDFromHex id' = Some oid"
    and "lookup_id oid s = Some d"
  shows "written (toggleTodoStatus None (\<lambda>s. s) None id' s) =
           [\<lparr>status = 200,
             content = TodoJSON \<lparr>ID = ID d, Item = Item d, Completed = (\<not> Completed d)\<rparr>\<rparr>]
       \<and> lookup_id oid (coll (toggleTodoStatus None (\<lambda>s. s) None id' s)) =
           Some \<lparr>ID = ID d, Item = Item d, Completed = (\<not> Completed d)\<rparr>
       \<and> list_all2 (\<lambda>a b. ID b = ID a \<and> Item b = Item a \<and> (ID a \<noteq> oid \<longrightarrow> b = a))
           s (coll (toggleTodoStatus None (\<lambda>s. s) None id' s))
       \<and> written (toggleTodoStatus None (\<lambda>s. s) None id'
             (coll (toggleTodoStatus None (\<lambda>s. s) None id' s))) =
           [\<lparr>status = 200, content = TodoJSON d\<rparr>]
       \<and> coll (toggleTodoStatus None (\<lambda>s. s) None id'
             (coll (toggleTodoStatus None (\<lambda>s. s) None id' s))) = s"
proof -
  define d1 where "d1 = \<lparr>ID = ID d, Item = Item d, Completed = (\<not> Completed d)\<rparr>"
  define s1 where "s1 = update_id oid (SetCompleted (\<not> Completed d)) s"
  have first: "toggleTodoStatus None (\<lambda>s. s) None id' s =
      \<lparr>written = [\<lparr>status = 200, content = TodoJSON d1\<rparr>],
       calls = [CallFindOne oid, CallUpdateOne oid (SetCompleted (\<not> Completed d))],
       ending = Returned, coll = s1\<rparr>"
    unfolding d1_def s1_def by (rule toggleTodoStatus_present [OF assms])
  have stored: "lookup_id oid s1 = Some d1"
    unfolding d1_def s1_def using assms(2) by (simp add: lookup_id_update_id)
  have frame: "list_all2 (\<lambda>a b. ID b = ID a \<and> Item b = Item a \<and> (ID a \<noteq> oid \<longrightarrow> b = a)) s s1"
    unfolding s1_def by (rule update_id_SetCompleted_frame)
  have flipped: "\<lparr>ID = ID d1, Item = Item d1, Completed = (\<not> Completed d1)\<rparr> = d"
    unfolding d1_def by simp
  have restored: "update_id oid (SetCompleted (\<not> Completed d1)) s1 = s"
    unfolding d1_def s1_def using update_id_twice [OF assms(2)] by simp
  have second: "toggleTodoStatus None (\<lambda>s. s) None id' s1 =
      \<lparr>written = [\<lparr>status = 200, content = TodoJSON d\<rparr>],
       calls = [CallFindOne oid, CallUpdateOne oid (SetCompleted (\<not> Completed d1))],
       ending = Returned, coll = s\<rparr>"
    using toggleTodoStatus_present [OF assms(1) stored] by (simp only: flipped restored)
  show ?thesis
    unfolding first using stored frame second by (simp add: d1_def)
qed

text \<open>Claim C7 on a collection of one record.\<close>

theorem toggle_twice_restores_witness:
  "written (toggleTodoStatus None (\<lambda>s. s) None ''507f1f77bcf86cd799439011''
      [\<lparr>ID = sample_id, Item = [104, 105], Completed = False\<rparr>]) =
     [\<lparr>status = 200, content = TodoJSON \<lparr>ID = sample_id, Item = [104, 105], Completed = True\<rparr>\<rparr>]
   \<and> written (toggleTodoStatus None (\<lambda>s. s) None ''507f1f77bcf86cd799439011''
        (coll (toggleTodoStatus None (\<lambda>s. s) None ''507f1f77bcf86cd799439011''
          [\<lparr>ID = sample_id, Item = [104, 105], Completed = False\<rparr>]))) =
     [\<lparr>status = 200, content = TodoJSON \<lparr>ID = sample_id, Item = [104, 105], Completed = False\<rparr>\<rparr>]
   \<and> coll (toggleTodoStatus None (\<lambda>s. s) None ''507f1f77bcf86cd799439011''
        (coll (toggleTodoStatus None (\<lambda>s. s) None ''507f1f77bcf86cd799439011''
          [\<lparr>ID = sample_id, Item = [104, 105], Completed = False\<rparr>]))) =
     [\<lparr>ID = sample_id, Item = [104, 105], Completed = False\<rparr>]"
proof -
  have present: "lookup_id sample_id [\<lparr>ID = sample_id, Item = [104, 105], Completed = False\<rparr>]
      = Some \<lparr>ID = sample_id, Item = [104, 105], Completed = False\<rparr>"
    by simp
  show ?thesis
    using toggle_twice_restores [of "''507f1f77bcf86cd799439011''" sample_id
        "[\<lparr>ID = sample_id, Item = [104, 105], Completed = False\<rparr>]"
        "\<lparr>ID = sample_id, Item = [104, 105], Completed = False\<rparr>"]
      ObjectIDFromHex_sample present
    by simp
qed

subsection \<open>Deleting, then getting\<close>

lemma set_delete_id_distinct:
  "distinct (map ID s) \<Longrightarrow> d \<in> set s \<Longrightarrow> set (delete_id (ID d) s) = set s - {d}"
  by (induction s) (auto simp: image_iff)

text \<open>
  Claim C8. For every record of the collection, DELETE /todos/:id on its identifier answers
  200 with that record as it was, the record is gone from the collection, and a GET on the
  same identifier right after answers 404. Identifiers in a collection are unique.
\<close>

theorem delete_then_get_is_404:
  assumes "distinct (map ID s)"
    and "d \<in> set s"
    and "ObjectIDFromHex id' = Some (ID d)"
  shows "written (deleteTodo None id' s) = [\<lparr>status = 200, content = TodoJSON d\<rparr>]
       \<and> ending (deleteTodo None id' s) = Returned
       \<and> set (coll (deleteTodo None id' s)) = set s - {d}
       \<and> written (getTodo None id' (coll (deleteTodo None id' s))) =
           [\<lparr>status = 404, content = H_error ''mongo: no documents in result''\<rparr>]
       \<and> ending (getTodo None id' (coll (deleteTodo None id' s))) = Returned"
proof -
  have present: "lookup_id (ID d) s = Some d"
    using assms(1,2) by (rule lookup_id_distinct)
  have del: "deleteTodo None id' s =
      \<lparr>written = [\<lparr>status = 200, content = TodoJSON d\<rparr>],
       calls = [CallFindOneAndDelete (ID d)], ending = Returned,
       coll = delete_id (ID d) s\<rparr>"
    using assms(3) present
    by (simp add: deleteTodo_def FindOneAndDelete_def return_with_def JSON_def StatusOK_def
        Let_def)
  have gone: "lookup_id (ID d) (delete_id (ID d) s) = None"
    using assms(1) by (rule lookup_id_delete_id_same)
  have get: "getTodo None id' (delete_id (ID d) s) =
      \<lparr>written = [\<lparr>status = 404, content = H_error ''mongo: no documents in result''\<rparr>],
       calls = [CallFindOne (ID d)], ending = Returned, coll = delete_id (ID d) s\<rparr>"
    using assms(3) gone
    by (simp add: getTodo_def FindOne_def return_with_def JSON_def StatusNotFound_def)
  show ?thesis
    unfolding del using get set_delete_id_distinct [OF assms(1,2)] by simp
qed

text \<open>Claim C8 on a collection of two records.\<close>

theorem delete_then_get_is_404_witness:
  "written (deleteTodo None ''507f1f77bcf86cd799439011''
      [\<lparr>ID = other_id, Item = [104, 105], Completed = False\<rparr>,
       \<lparr>ID = sample_id, Item = [97, 98], Completed = True\<rparr>]) =
     [\<lparr>status = 200, content = TodoJSON \<lparr>ID = sample_id, Item = [97, 98], Completed = True\<rparr>\<rparr>]
   \<and> written (getTodo None ''507f1f77bcf86cd799439011''
        (coll (deleteTodo None ''507f1f77bcf86cd799439011''
          [\<lparr>ID = other_id, Item = [104, 105], Completed = False\<rparr>,
           \<lparr>ID = sample_id, Item = [97, 98], Completed = True\<rparr>]))) =
     [\<lparr>status = 404, content = H_error ''mongo: no documents in result''\<rparr>]"
proof -
  let ?s = "[\<lparr>ID = other_id, Item = [104, 105], Completed = False\<rparr>,
             \<lparr>ID = sample_id, Item = [97, 98], Completed = True\<rparr>]"
  have unique: "distinct (map ID ?s)"
    by (simp add: sample_id_def other_id_def)
  have member: "\<lparr>ID = sample_id, Item = [97, 98], Completed = True\<rparr> \<in> set ?s"
    by simp
  have parsed: "ObjectIDFromHex ''507f1f77bcf86cd799439011'' =
      Some (ID \<lparr>ID = sample_id, Item = [97, 98], Completed = True\<rparr>)"
    by (simp add: ObjectIDFromHex_sample)
  show ?thesis
    using delete_then_get_is_404 [OF unique member parsed] by simp
qed

subsection \<open>Identifiers stay unique\<close>

text \<open>
  The storage layer keeps \<^verbatim>\<open>_id\<close> unique; so does the model: no handler breaks it, the
  toggle provided what happens between its two calls does not.
\<close>

lemma createTodo_distinct:
  "distinct (map ID s) \<Longrightarrow> distinct (map ID (coll (createTodo f gen b s)))"
  by (auto simp: createTodo_def InsertOne_def return_with_def Let_def split: option.splits)

lemma handlers_keep_identifiers_unique:
  assumes "distinct (map ID s)"
  shows "distinct (map ID (coll (createTodo f gen b s)))"
    and "distinct (map ID (coll (getTodos f s)))"
    and "distinct (map ID (coll (getTodo f id' s)))"
    and "distinct (map ID (between s)) \<Longrightarrow>
         distinct (map ID (coll (toggleTodoStatus f1 between f2 id' s)))"
    and "distinct (map ID (coll (updateTodo f id' b s)))"
    and "distinct (map ID (coll (deleteTodo f id' s)))"
proof -
  show "distinct (map ID (coll (createTodo f gen b s)))"
    using assms by (rule createTodo_distinct)
  show "distinct (map ID (coll (getTodos f s)))"
    using assms by (simp add: getTodos_def return_with_def split: sum.splits)
  show "distinct (map ID (coll (getTodo f id' s)))"
    using assms by (simp add: getTodo_def return_with_def split: option.splits sum.splits)
  show "distinct (map ID (coll (toggleTodoStatus f1 between f2 id' s)))"
    if "distinct (map ID (between s))"
    using assms that
    by (auto simp: toggleTodoStatus_def UpdateOne_def return_with_def Let_def map_ID_update_id
        split: option.splits sum.splits)
  show "distinct (map ID (coll (updateTodo f id' b s)))"
    using assms
    by (auto simp: updateTodo_def FindOneAndUpdate_def return_with_def Let_def
        map_ID_update_id split: option.splits sum.splits)
  show "distinct (map ID (coll (deleteTodo f id' s)))"
    using assms
    by (auto simp: deleteTodo_def FindOneAndDelete_def return_with_def Let_def
        distinct_delete_id split: option.splits sum.splits)
qed

subsection \<open>Listing what was created\<close>

lemma createTodo_coll: "coll (createTodo f gen b s) = s @ created (createTodo f gen b s)"
  by (auto simp: createTodo_def InsertOne_def return_with_def JSON_def Let_def created_def
      StatusBadRequest_def StatusCreated_def StatusInternalServerError_def
      split: option.splits)

lemma createTodo_created_length:
  "length (created (createTodo f gen b s)) = (if succeeded (createTodo f gen b s) then 1 else 0)"
  by (auto simp: createTodo_def InsertOne_def return_with_def JSON_def Let_def created_def
      succeeded_def StatusBadRequest_def StatusCreated_def StatusInternalServerError_def
      split: option.splits)

lemma run_creates_coll:
  "snd (run_creates reqs s) = s @ concat (map created (fst (run_creates reqs s)))"
proof (induction reqs arbitrary: s)
  case Nil
  show ?case by simp
next
  case (Cons r rs)
  obtain f gen b where r: "r = (f, gen, b)"
    by (cases r) auto
  show ?case
    using Cons.IH [of "coll (createTodo f gen b s)"] createTodo_coll [of f gen b s]
    by (simp add: r split_beta Let_def)
qed

lemma run_creates_distinct:
  "distinct (map ID s) \<Longrightarrow> distinct (map ID (snd (run_creates reqs s)))"
proof (induction reqs arbitrary: s)
  case Nil
  then show ?case by simp
next
  case (Cons r rs)
  obtain f gen b where r: "r = (f, gen, b)"
    by (cases r) auto
  from Cons.prems have "distinct (map ID (coll (createTodo f gen b s)))"
    by (rule createTodo_distinct)
  then have "distinct (map ID (snd (run_creates rs (coll (createTodo f gen b s)))))"
    by (rule Cons.IH)
  then show ?case
    by (simp add: r split_beta Let_def)
qed

lemma run_creates_count:
  "length (concat (map created (fst (run_creates reqs s)))) =
     length (filter succeeded (fst (run_creates reqs s)))"
proof (induction reqs arbitrary: s)
  case Nil
  show ?case by simp
next
  case (Cons r rs)
  obtain f gen b where r: "r = (f, gen, b)"
    by (cases r) auto
  show ?case
    using Cons.IH [of "coll (createTodo f gen b s)"] createTodo_created_length [of f gen b s]
    by (simp add: r split_beta Let_def)
qed

lemma run_creates_length: "length (fst (run_creates reqs s)) = length reqs"
  by (induction reqs arbitrary: s) (auto simp: split_beta Let_def)

text \<open>
  Claim C9. GET /todos on the empty collection answers 200 with the empty array. After any
  sequence of create requests served on the empty collection, with no other request in
  between, it answers 200 with exactly the records of the creates that succeeded, each
  once: as many records as there were successful creates, and the same records as their
  201 responses carried, in whatever order. The storage layer answers the listing.
\<close>

theorem getTodos_lists_created:
  "getTodos None [] =
     \<lparr>written = [\<lparr>status = 200, content = TodosJSON []\<rparr>], calls = [CallFind],
      ending = Returned, coll = []\<rparr>
 \<and> (\<exists>ts. written (getTodos None (snd (run_creates reqs []))) =
            [\<lparr>status = 200, content = TodosJSON ts\<rparr>]
        \<and> mset ts = mset (concat (map created (fst (run_creates reqs []))))
        \<and> distinct ts
        \<and> length ts = length (filter succeeded (fst (run_creates reqs []))))"
proof -
  have list: "getTodos None s =
     \<lparr>written = [\<lparr>status = 200, content = TodosJSON s\<rparr>], calls = [CallFind],
      ending = Returned, coll = s\<rparr>" for s
    by (simp add: getTodos_def Find_def getTodos_loop_append return_with_def JSON_def
        StatusOK_def)
  define final where "final = snd (run_creates reqs [])"
  have content: "final = concat (map created (fst (run_creates reqs [])))"
    unfolding final_def using run_creates_coll [of reqs "[]"] by simp
  have "distinct (map ID final)"
    unfolding final_def by (rule run_creates_distinct) simp
  then have once: "distinct final"
    by (simp add: distinct_map)
  have count: "length final = length (filter succeeded (fst (run_creates reqs [])))"
    unfolding content by (rule run_creates_count)
  have "written (getTodos None final) = [\<lparr>status = 200, content = TodosJSON final\<rparr>]
      \<and> mset final = mset (concat (map created (fst (run_creates reqs []))))
      \<and> distinct final
      \<and> length final = length (filter succeeded (fst (run_creates reqs [])))"
    using once count content by (simp add: list)
  then show ?thesis
    unfolding final_def [symmetric] list by blast
qed

text \<open>Claim C9 after four create requests, of which two succeed.\<close>

theorem getTodos_lists_created_witness:
  "written (getTodos None (snd (run_creates
      [(None, sample_id, Object (Some [104, 105]) None),
       (None, other_id, Object (Some [97]) None),
       (Some ''connection reset'', other_id, Object (Some [97, 98]) None),
       (None, other_id, Object (Some [111, 107]) (Some True))] []))) =
     [\<lparr>status = 200, content = TodosJSON
        [\<lparr>ID = sample_id, Item = [104, 105], Completed = False\<rparr>,
         \<lparr>ID = other_id, Item = [111, 107], Completed = True\<rparr>]\<rparr>]"
proof -
  let ?reqs = "[(None, sample_id, Object (Some [104, 105]) None),
       (None, other_id, Object (Some [97]) None),
       (Some ''connection reset'', other_id, Object (Some [97, 98]) None),
       (None, other_id, Object (Some [111, 107]) (Some True))]"
  have run: "snd (run_creates ?reqs []) =
      [\<lparr>ID = sample_id, Item = [104, 105], Completed = False\<rparr>,
       \<lparr>ID = other_id, Item = [111, 107], Completed = True\<rparr>]"
    by (simp add: createTodo_def Validate_Struct_def validate_Item_def InsertOne_def
        return_with_def Let_def NilObjectID_def sample_id_def other_id_def)
  from getTodos_lists_created [of ?reqs]
  obtain ts where "written (getTodos None (snd (run_creates ?reqs []))) =
      [\<lparr>status = 200, content = TodosJSON ts\<rparr>]"
    by blast
  moreover have "written (getTodos None (snd (run_creates ?reqs []))) =
      [\<lparr>status = 200, content = TodosJSON (snd (run_creates ?reqs []))\<rparr>]"
    by (simp add: getTodos_def Find_def getTodos_loop_append return_with_def JSON_def
        StatusOK_def)
  ultimately show ?thesis
    by (simp only: run)
qed

subsection \<open>Client errors touch nothing\<close>

text \<open>
  Claim C10. Whenever POST /todos or PUT /todos/:id writes a 400 (identifier that does not
  parse, body that does not bind, validation that fails), the handler has issued no
  database call and the collection is what it was before the request.
\<close>

theorem client_error_leaves_collection:
  "((\<exists>r \<in> set (written (createTodo f gen b s)). status r = 400) \<longrightarrow>
      calls (createTodo f gen b s) = [] \<and> coll (createTodo f gen b s) = s)
 \<and> ((\<exists>r \<in> set (written (updateTodo f' id' b' s')). status r = 400) \<longrightarrow>
      calls (updateTodo f' id' b' s') = [] \<and> coll (updateTodo f' id' b' s') = s')"
proof -
  have create: "calls (createTodo f gen b s) = [] \<and> coll (createTodo f gen b s) = s"
    if "\<exists>r \<in> set (written (createTodo f gen b s)). status r = 400"
    using that
    by (auto simp: createTodo_def InsertOne_def return_with_def JSON_def Let_def
        StatusBadRequest_def StatusCreated_def StatusInternalServerError_def
        split: option.splits if_splits)
  have update: "calls (updateTodo f' id' b' s') = [] \<and> coll (updateTodo f' id' b' s') = s'"
    if "\<exists>r \<in> set (written (updateTodo f' id' b' s')). status r = 400"
    using that
    by (auto simp: updateTodo_def FindOneAndUpdate_def return_with_def JSON_def Let_def
        StatusBadRequest_def StatusOK_def StatusNotFound_def StatusInternalServerError_def
        split: option.splits if_splits)
  from create update show ?thesis
    by blast
qed

text \<open>Claim C10 at a create with an item of one rune and an update with no usable body.\<close>

theorem client_error_leaves_collection_witness:
  "map status (written (createTodo None other_id (Object (Some [97]) None)
      [\<lparr>ID = sample_id, Item = [104, 105], Completed = False\<rparr>])) = [400]
   \<and> calls (createTodo None other_id (Object (Some [97]) None)
      [\<lparr>ID = sample_id, Item = [104, 105], Completed = False\<rparr>]) = []
   \<and> coll (createTodo None other_id (Object (Some [97]) None)
      [\<lparr>ID = sample_id, Item = [104, 105], Completed = False\<rparr>]) =
      [\<lparr>ID = sample_id, Item = [104, 105], Completed = False\<rparr>]
   \<and> map status (written (updateTodo None ''507f1f77bcf86cd799439011'' Unbindable
      [\<lparr>ID = sample_id, Item = [104, 105], Completed = False\<rparr>])) = [400]
   \<and> calls (updateTodo None ''507f1f77bcf86cd799439011'' Unbindable
      [\<lparr>ID = sample_id, Item = [104, 105], Completed = False\<rparr>]) = []
   \<and> coll (updateTodo None ''507f1f77bcf86cd799439011'' Unbindable
      [\<lparr>ID = sample_id, Item = [104, 105], Completed = False\<rparr>]) =
      [\<lparr>ID = sample_id, Item = [104, 105], Completed = False\<rparr>]"
proof -
  let ?s = "[\<lparr>ID = sample_id, Item = [104, 105], Completed = False\<rparr>]"
  let ?c = "createTodo None other_id (Object (Some [97]) None) ?s"
  let ?u = "updateTodo None ''507f1f77bcf86cd799439011'' Unbindable ?s"
  have c: "written ?c = [\<lparr>status = 400, content = H_error (Sprintf_field
      \<lparr>Field = ''Item'', ActualTag = ''min'', Param = ''2''\<rparr>)\<rparr>]"
    by (simp add: createTodo_def Validate_Struct_def validate_Item_def return_with_def
        JSON_def StatusBadRequest_def)
  have u: "written ?u = [\<lparr>status = 400, content = H_error ''invalid request body''\<rparr>]"
    by (simp add: updateTodo_def ObjectIDFromHex_sample return_with_def JSON_def
        StatusBadRequest_def)
  have c': "\<exists>r \<in> set (written ?c). status r = 400"
    unfolding c by simp
  have u': "\<exists>r \<in> set (written ?u). status r = 400"
    unfolding u by simp
  have cs: "map status (written ?c) = [400]"
    unfolding c by simp
  have us: "map status (written ?u) = [400]"
    unfolding u by simp
  from client_error_leaves_collection
      [of None other_id "Object (Some [97]) None" ?s None "''507f1f77bcf86cd799439011''"
        Unbindable ?s] c' u'
  have "calls ?c = [] \<and> coll ?c = ?s \<and> calls ?u = [] \<and> coll ?u = ?s"
    by blast
  with cs us show ?thesis
    by blast
qed

end
